theory Spec2Isabelle
  imports Complex_Main
begin

section \<open>Data model\<close>

text \<open>
  The program works on pandas objects holding float values. A cell is a real number or
  NaN; NaN is \<open>None\<close>. Arithmetic on defined cells is exact real arithmetic: rounding,
  overflow and the infinities of IEEE floats are outside the model, as the specification's
  data model ("real-valued entries, may include undefined values") has it.

  A DataFrame of T periods and N experts is the list of its T rows, each a list of N
  cells; a Series over the periods is a list of T cells. Row and column labels are the
  positions: column names are taken to be unique, and the two arguments of
  \<open>pooled_forecast_simple\<close> are taken to carry the same labels (the theorems about it
  assume equal shapes), so that pandas' alignment by label is alignment by position.

  The two operations are first given as functions on these values. Which objects a call
  writes to is the subject of a second reading of the same code, on a store of objects,
  further down; it is proved to compute the same values.
\<close>

type_synonym cell = "real option"
type_synonym series = "cell list"
type_synonym frame = "cell list list"

definition shape :: "nat \<Rightarrow> nat \<Rightarrow> 'a list list \<Rightarrow> bool" where
  "shape T N X \<longleftrightarrow> length X = T \<and> (\<forall>r \<in> set X. length r = N)"

section \<open>NaN-aware arithmetic on cells\<close>

fun fsub :: "cell \<Rightarrow> cell \<Rightarrow> cell" where
  "fsub (Some x) (Some y) = Some (x - y)"
| "fsub _ _ = None"

fun fadd :: "cell \<Rightarrow> cell \<Rightarrow> cell" where
  "fadd (Some x) (Some y) = Some (x + y)"
| "fadd _ _ = None"

fun fmul :: "cell \<Rightarrow> cell \<Rightarrow> cell" where
  "fmul (Some x) (Some y) = Some (x * y)"
| "fmul _ _ = None"

text \<open>
  Division: \<open>0 / 0\<close> is NaN. A nonzero number over zero is an infinity for IEEE floats
  and has no value in this model; \<open>fdiv\<close> gives \<open>None\<close> there, and the lemmas
  \<open>proportion_zero_denom\<close> and \<open>replace_zero_nan_nonzero\<close> below show that, on
  the numbers of this model, the program never divides a nonzero number by zero.

  What the model leaves out: in IEEE arithmetic a sum or difference of large finite
  forecasts can overflow to an infinity, after which line 92 of the source can compute
  \<open>inf / inf = NaN\<close> under a true mask, and every quotient is rounded. Which weights of a
  row with a pioneer are NaN, and the exact value of a row sum, therefore differ between
  the program and this model; the theorems on the claims below state nothing about
  either.
\<close>

fun fdiv :: "cell \<Rightarrow> cell \<Rightarrow> cell" where
  "fdiv (Some x) (Some y) = (if y = 0 then None else Some (x / y))"
| "fdiv _ _ = None"

definition fabs :: "cell \<Rightarrow> cell" where
  "fabs c = map_option abs c"

text \<open>Comparisons with NaN are false.\<close>

fun flt :: "cell \<Rightarrow> cell \<Rightarrow> bool" where
  "flt (Some x) (Some y) = (x < y)"
| "flt _ _ = False"

definition fgt :: "cell \<Rightarrow> cell \<Rightarrow> bool" where
  "fgt a b = flt b a"

section \<open>Row reductions\<close>

text \<open>The non-NaN entries of a row, in order (\<open>skipna=True\<close>, the pandas default).\<close>

fun defined :: "cell list \<Rightarrow> real list" where
  "defined [] = []"
| "defined (None # r) = defined r"
| "defined (Some x # r) = x # defined r"

text \<open>\<open>sum(axis=1)\<close>: the sum of the non-NaN entries, 0 when there is none.\<close>

definition sum_skipna :: "cell list \<Rightarrow> cell" where
  "sum_skipna r = Some (sum_list (defined r))"

text \<open>\<open>sum(axis=1, min_count=1)\<close>: NaN when the row has no non-NaN entry.\<close>

definition sum_min_count1 :: "cell list \<Rightarrow> cell" where
  "sum_min_count1 r = (if defined r = [] then None else Some (sum_list (defined r)))"

text \<open>\<open>mean(axis=1)\<close>: the mean of the non-NaN entries, NaN when there is none.\<close>

definition mean_skipna :: "cell list \<Rightarrow> cell" where
  "mean_skipna r =
     (if defined r = [] then None
      else Some (sum_list (defined r) / real (length (defined r))))"

section \<open>Whole-frame operations\<close>

definition frame_map :: "('a \<Rightarrow> 'b) \<Rightarrow> 'a list list \<Rightarrow> 'b list list" where
  "frame_map f A = map (map f) A"

definition frame_map2 :: "('a \<Rightarrow> 'b \<Rightarrow> 'c) \<Rightarrow> 'a list list \<Rightarrow> 'b list list \<Rightarrow> 'c list list" where
  "frame_map2 f A B = map2 (map2 f) A B"

text \<open>\<open>shift(1)\<close>: row 0 is all NaN, row t is the old row t - 1.\<close>

definition shift1 :: "frame \<Rightarrow> frame" where
  "shift1 A = (case A of [] \<Rightarrow> [] | r # _ \<Rightarrow> map (\<lambda>_. None) r # butlast A)"

text \<open>\<open>diff()\<close>: each row minus the row before it.\<close>

definition diff :: "frame \<Rightarrow> frame" where
  "diff A = frame_map2 fsub A (shift1 A)"

text \<open>\<open>X.drop(columns=col)\<close> on one row.\<close>

definition drop_col :: "nat \<Rightarrow> 'a list \<Rightarrow> 'a list" where
  "drop_col col r = take col r @ drop (Suc col) r"

text \<open>\<open>X.drop(columns=col)\<close>, \<open>mean(axis=1)\<close> of a frame, and the number of columns.\<close>

definition drop_columns :: "nat \<Rightarrow> frame \<Rightarrow> frame" where
  "drop_columns col X = map (drop_col col) X"

definition mean_axis1 :: "frame \<Rightarrow> series" where
  "mean_axis1 X = map mean_skipna X"

definition ncols :: "'a list list \<Rightarrow> nat" where
  "ncols X = (case X of [] \<Rightarrow> 0 | r # _ \<Rightarrow> length r)"

text \<open>
  \<open>pd.DataFrame(index=X.index, columns=X.columns, dtype=float)\<close>: a frame of the shape of
  \<open>X\<close>, all NaN; and the column assignment \<open>m[col] = s\<close>, which overwrites column
  \<open>col\<close> of \<open>m\<close> with the series \<open>s\<close>.
\<close>

definition nan_frame :: "frame \<Rightarrow> frame" where
  "nan_frame X = map (map (\<lambda>_. None)) X"

definition set_column :: "nat \<Rightarrow> series \<Rightarrow> frame \<Rightarrow> frame" where
  "set_column col s m = map2 (\<lambda>r c. r[col := c]) m s"

text \<open>
  Step 0, the loop \<open>for col in X.columns: m_minus[col] = X.drop(columns=col).mean(axis=1)\<close>
  on the all-NaN frame. (With no row the model knows no column; the loop then has nothing
  to fill.)
\<close>

definition m_minus_of :: "frame \<Rightarrow> frame" where
  "m_minus_of X =
     fold (\<lambda>col m_minus. set_column col (mean_axis1 (drop_columns col X)) m_minus)
       [0..<ncols X] (nan_frame X)"

text \<open>\<open>row_sums.replace(0.0, np.nan)\<close> on one entry.\<close>

definition replace_zero_nan :: "cell \<Rightarrow> cell" where
  "replace_zero_nan c = (if c = Some 0 then None else c)"

text \<open>\<open>raw.div(s, axis=0)\<close>: every entry of row t is divided by entry t of the series.\<close>

definition div_axis0 :: "frame \<Rightarrow> series \<Rightarrow> frame" where
  "div_axis0 A s = map2 (\<lambda>r d. map (\<lambda>c. fdiv c d) r) A s"

section \<open>The two operations\<close>

text \<open>
  \<open>compute_pioneer_weights_simple\<close>, lines 78 to 100 of the source, as functions of
  \<open>X\<close> and of the benchmark frame \<open>m_minus\<close> that Step 0 has filled.
\<close>

definition distance_from :: "frame \<Rightarrow> frame \<Rightarrow> frame" where
  "distance_from X m_minus = frame_map fabs (frame_map2 fsub X m_minus)"

definition denom_from :: "frame \<Rightarrow> frame \<Rightarrow> frame" where
  "denom_from X m_minus =
     frame_map2 fadd (frame_map fabs (diff m_minus)) (frame_map fabs (diff X))"

definition mask_from :: "frame \<Rightarrow> frame \<Rightarrow> bool list list" where
  "mask_from X m_minus =
     (let delta_X = diff X;
          delta_m = diff m_minus;
          distance = distance_from X m_minus;
          distance_prev = shift1 distance;
          cond_distance = frame_map2 flt distance distance_prev;
          cond_orientation = frame_map2 fgt (frame_map fabs delta_m) (frame_map fabs delta_X);
          denom = denom_from X m_minus
      in frame_map2 (\<and>) (frame_map2 (\<and>) cond_distance cond_orientation)
           (frame_map (\<lambda>d. fgt d (Some 0)) denom))"

definition raw_from :: "frame \<Rightarrow> frame \<Rightarrow> frame" where
  "raw_from X m_minus =
     (let delta_m = diff m_minus;
          proportion = frame_map2 fdiv (frame_map fabs delta_m) (denom_from X m_minus)
      in frame_map2 (\<lambda>p m. if m then p else Some 0) proportion (mask_from X m_minus))"

definition weights_from :: "frame \<Rightarrow> frame \<Rightarrow> frame" where
  "weights_from X m_minus =
     (let raw = raw_from X m_minus;
          row_sums = map sum_skipna raw
      in div_axis0 raw (map replace_zero_nan row_sums))"

definition compute_pioneer_weights_simple :: "frame \<Rightarrow> frame" where
  "compute_pioneer_weights_simple forecasts =
     (let X = forecasts;
          m_minus = m_minus_of X
      in weights_from X m_minus)"

text \<open>The intermediate frames of a run on \<open>X\<close>.\<close>

abbreviation distance_of :: "frame \<Rightarrow> frame" where
  "distance_of X \<equiv> distance_from X (m_minus_of X)"

abbreviation denom_of :: "frame \<Rightarrow> frame" where
  "denom_of X \<equiv> denom_from X (m_minus_of X)"

abbreviation mask_of :: "frame \<Rightarrow> bool list list" where
  "mask_of X \<equiv> mask_from X (m_minus_of X)"

abbreviation raw_of :: "frame \<Rightarrow> frame" where
  "raw_of X \<equiv> raw_from X (m_minus_of X)"

definition pooled_forecast_simple :: "frame \<Rightarrow> frame \<Rightarrow> series" where
  "pooled_forecast_simple forecasts weights =
     (let weighted_sum = map sum_min_count1 (frame_map2 fmul forecasts weights);
          weight_sums = map sum_min_count1 weights;
          no_pioneer = map (\<lambda>s. s = None \<or> s = Some 0) weight_sums;
          fallback_mean = map mean_skipna forecasts
      in map2 (\<lambda>np (ws, fb). if np then fb else ws)
           no_pioneer (zip weighted_sum fallback_mean))"

section \<open>Cell-wise reading of the differences\<close>

text \<open>
  The first difference of expert i at period t, and that of its leave-one-out benchmark,
  written on cells: what \<open>delta_X\<close> and \<open>delta_m\<close> hold at \<open>(t, i)\<close>
  (lemmas \<open>nth_delta_X\<close> and \<open>nth_delta_m\<close>).
\<close>

definition delta_x_at :: "frame \<Rightarrow> nat \<Rightarrow> nat \<Rightarrow> cell" where
  "delta_x_at X t i = (if t = 0 then None else fsub (X ! t ! i) (X ! (t - 1) ! i))"

definition delta_m_at :: "frame \<Rightarrow> nat \<Rightarrow> nat \<Rightarrow> cell" where
  "delta_m_at X t i =
     (if t = 0 then None
      else fsub (mean_skipna (drop_col i (X ! t))) (mean_skipna (drop_col i (X ! (t - 1)))))"

section \<open>The benchmark as the specification words it\<close>

text \<open>
  The leave-one-out mean of expert i at period t, following the specification: the
  arithmetic mean of the defined values of all experts other than i at t, undefined when
  there is none.
\<close>

definition loo_mean_spec :: "frame \<Rightarrow> nat \<Rightarrow> nat \<Rightarrow> cell" where
  "loo_mean_spec X t i =
     (let others = map (\<lambda>j. the (X ! t ! j))
                     (filter (\<lambda>j. j \<noteq> i \<and> X ! t ! j \<noteq> None) [0..<length (X ! t)])
      in if others = [] then None else Some (sum_list others / real (length others)))"

section \<open>Concrete inputs\<close>

text \<open>The scenario of the specification: experts E1, E2, E3 over periods 0 to 3.\<close>

definition scenario :: frame where
  "scenario =
     [[Some 10, Some 10, Some 10],
      [Some 11, Some 10, Some 9],
      [Some 13, Some 10, Some 9],
      [Some 13, Some 14, Some 15]]"

section \<open>The two operations on a store of objects\<close>

text \<open>
  To speak about mutation, the pandas objects live in a store: a list of objects, the
  address of an object being its position. A Python name holds an address. Every pandas
  call of the source that returns a new object (\<open>astype\<close>, \<open>pd.DataFrame\<close>, \<open>drop\<close>,
  \<open>copy\<close>, the arithmetic) allocates at the end of the store; the two subscript
  assignments of the source, \<open>m_minus[col] = ...\<close> and \<open>pooled[no_pioneer] = ...\<close>,
  overwrite the object at the address the name holds.
\<close>

datatype obj = Frame frame | Series series

type_synonym store = "obj list"

definition alloc :: "obj \<Rightarrow> store \<Rightarrow> nat \<times> store" where
  "alloc v h = (length h, h @ [v])"

definition frame_at :: "store \<Rightarrow> nat \<Rightarrow> frame" where
  "frame_at h a = (case h ! a of Frame X \<Rightarrow> X | Series s \<Rightarrow> [])"

definition series_at :: "store \<Rightarrow> nat \<Rightarrow> series" where
  "series_at h a = (case h ! a of Series s \<Rightarrow> s | Frame X \<Rightarrow> [])"

text \<open>
  One round of the loop of Step 0: \<open>others = X.drop(columns=col)\<close> allocates,
  \<open>m_minus[col] = others.mean(axis=1)\<close> writes into the object of \<open>m_minus\<close>.
\<close>

definition m_minus_step :: "nat \<Rightarrow> nat \<Rightarrow> nat \<Rightarrow> store \<Rightarrow> store" where
  "m_minus_step X m_minus col h =
     (let (others, h') = alloc (Frame (drop_columns col (frame_at h X))) h
      in h'[m_minus := Frame (set_column col (mean_axis1 (frame_at h' others))
                                  (frame_at h' m_minus))])"

text \<open>
  \<open>compute_pioneer_weights_simple\<close> on the store. The frames of lines 78 to 100 are new
  objects that nothing writes to; the last of them, \<open>weights\<close>, is the one returned.
\<close>

definition compute_pioneer_weights_simple_st :: "nat \<Rightarrow> store \<Rightarrow> nat \<times> store" where
  "compute_pioneer_weights_simple_st forecasts h0 =
     (let (X, h1) = alloc (Frame (frame_at h0 forecasts)) h0;
          (m_minus, h2) = alloc (Frame (nan_frame (frame_at h1 X))) h1;
          h3 = fold (m_minus_step X m_minus) [0..<ncols (frame_at h2 X)] h2;
          (weights, h4) = alloc (Frame (weights_from (frame_at h3 X) (frame_at h3 m_minus))) h3
      in (weights, h4))"

text \<open>
  \<open>pooled_forecast_simple\<close> on the store. \<open>forecasts = forecasts.astype(float)\<close> binds the
  local name to a new object; \<open>pooled = weighted_sum.copy()\<close> allocates the object that
  \<open>pooled[no_pioneer] = fallback_mean[no_pioneer]\<close> then overwrites.
\<close>

definition pooled_forecast_simple_st :: "nat \<Rightarrow> nat \<Rightarrow> store \<Rightarrow> nat \<times> store" where
  "pooled_forecast_simple_st forecasts weights h0 =
     (let (forecasts', h1) = alloc (Frame (frame_at h0 forecasts)) h0;
          (weights', h2) = alloc (Frame (frame_at h1 weights)) h1;
          (weighted_sum, h3) =
             alloc (Series (map sum_min_count1
                      (frame_map2 fmul (frame_at h2 forecasts') (frame_at h2 weights')))) h2;
          weight_sums = map sum_min_count1 (frame_at h3 weights');
          no_pioneer = map (\<lambda>s. s = None \<or> s = Some 0) weight_sums;
          fallback_mean = map mean_skipna (frame_at h3 forecasts');
          (pooled, h4) = alloc (Series (series_at h3 weighted_sum)) h3;
          h5 = h4[pooled := Series (map2 (\<lambda>np (ws, fb). if np then fb else ws)
                                  no_pioneer (zip (series_at h4 pooled) fallback_mean))]
      in (pooled, h5))"

text \<open>A later store extends an earlier one when it keeps every object of it unchanged.\<close>

definition extends :: "store \<Rightarrow> store \<Rightarrow> bool" where
  "extends h h' \<longleftrightarrow> length h \<le> length h' \<and> take (length h) h' = h"

section \<open>Shapes and cells of the intermediate frames\<close>

lemma shape_nth: "shape T N X \<Longrightarrow> t < T \<Longrightarrow> length (X ! t) = N"
  by (simp add: shape_def)

lemma shape_length: "shape T N X \<Longrightarrow> length X = T"
  by (simp add: shape_def)

lemma shape_frame_map: "shape T N A \<Longrightarrow> shape T N (frame_map f A)"
  by (auto simp: shape_def frame_map_def)

lemma nth_frame_map:
  "shape T N A \<Longrightarrow> t < T \<Longrightarrow> i < N \<Longrightarrow> frame_map f A ! t ! i = f (A ! t ! i)"
  by (simp add: shape_def frame_map_def)

lemma shape_iff_nth: "shape T N X \<longleftrightarrow> length X = T \<and> (\<forall>t<T. length (X ! t) = N)"
  by (auto simp: shape_def all_set_conv_all_nth)

lemma shape_frame_map2:
  "shape T N A \<Longrightarrow> shape T N B \<Longrightarrow> shape T N (frame_map2 f A B)"
  by (simp add: shape_iff_nth frame_map2_def)

lemma nth_frame_map2:
  "shape T N A \<Longrightarrow> shape T N B \<Longrightarrow> t < T \<Longrightarrow> i < N \<Longrightarrow>
   frame_map2 f A B ! t ! i = f (A ! t ! i) (B ! t ! i)"
  by (simp add: shape_def frame_map2_def)

lemma shape_shift1: "shape T N A \<Longrightarrow> shape T N (shift1 A)"
  by (cases A) (auto simp: shape_def shift1_def dest: in_set_butlastD)

lemma nth_shift1:
  "shape T N A \<Longrightarrow> t < T \<Longrightarrow> i < N \<Longrightarrow>
   shift1 A ! t ! i = (if t = 0 then None else A ! (t - 1) ! i)"
proof (cases A)
  case Nil
  assume "shape T N A" "t < T"
  with Nil show ?thesis by (simp add: shape_def)
next
  case (Cons r A')
  assume h: "shape T N A" "t < T" "i < N"
  then have len: "length r = N" "length A = T" using Cons by (auto simp: shape_def)
  have s: "shift1 A = map (\<lambda>_. None) r # butlast A"
    using Cons by (simp add: shift1_def)
  show ?thesis
  proof (cases t)
    case 0
    then show ?thesis using s len h by simp
  next
    case (Suc n)
    then have "n < length (butlast A)" using h len by simp
    then have "butlast A ! n = A ! n" by (rule nth_butlast)
    then show ?thesis using s Suc by simp
  qed
qed

lemma shape_diff: "shape T N A \<Longrightarrow> shape T N (diff A)"
  by (simp add: diff_def shape_frame_map2 shape_shift1)

lemma nth_diff:
  "shape T N A \<Longrightarrow> t < T \<Longrightarrow> i < N \<Longrightarrow>
   diff A ! t ! i = (if t = 0 then None else fsub (A ! t ! i) (A ! (t - 1) ! i))"
  by (simp add: diff_def nth_frame_map2 shape_shift1 nth_shift1)

lemma shape_ncols: "shape T N X \<Longrightarrow> 0 < T \<Longrightarrow> ncols X = N"
  by (cases X) (auto simp: shape_def ncols_def)

lemma shape_set_column:
  "shape T N m \<Longrightarrow> length s = T \<Longrightarrow> shape T N (set_column col s m)"
  by (simp add: shape_iff_nth set_column_def)

lemma nth_set_column:
  "shape T N m \<Longrightarrow> length s = T \<Longrightarrow> t < T \<Longrightarrow> i < N \<Longrightarrow>
   set_column col s m ! t ! i = (if i = col then s ! t else m ! t ! i)"
  by (simp add: shape_iff_nth set_column_def nth_list_update)

text \<open>The invariant of the loop of Step 0 after the columns below \<open>k\<close>.\<close>

lemma m_minus_loop:
  assumes "shape T N X" "k \<le> N"
  shows "shape T N (fold (\<lambda>col m. set_column col (mean_axis1 (drop_columns col X)) m)
            [0..<k] (nan_frame X)) \<and>
         (\<forall>t<T. \<forall>i<N.
            fold (\<lambda>col m. set_column col (mean_axis1 (drop_columns col X)) m)
              [0..<k] (nan_frame X) ! t ! i =
            (if i < k then mean_skipna (drop_col i (X ! t)) else None))"
  using assms(2)
proof (induction k)
  case 0
  have "shape T N (nan_frame X)"
    using assms(1) by (auto simp: shape_def nan_frame_def)
  moreover have "\<forall>t<T. \<forall>i<N. nan_frame X ! t ! i = None"
    using assms(1) by (simp add: shape_iff_nth nan_frame_def)
  ultimately show ?case by simp
next
  case (Suc k)
  let ?step = "\<lambda>col m. set_column col (mean_axis1 (drop_columns col X)) m"
  let ?m = "fold ?step [0..<k] (nan_frame X)"
  let ?s = "mean_axis1 (drop_columns k X)"
  from Suc have sh: "shape T N ?m"
    and cells: "\<forall>t<T. \<forall>i<N. ?m ! t ! i =
        (if i < k then mean_skipna (drop_col i (X ! t)) else None)"
    by simp_all
  have ls: "length ?s = T"
    using assms(1) by (simp add: mean_axis1_def drop_columns_def shape_def)
  have st: "?s ! t = mean_skipna (drop_col k (X ! t))" if "t < T" for t
    using assms(1) that by (simp add: mean_axis1_def drop_columns_def shape_def)
  have unfold: "fold ?step [0..<Suc k] (nan_frame X) = set_column k ?s ?m"
    by simp
  have "shape T N (set_column k ?s ?m)"
    using sh ls by (rule shape_set_column)
  moreover have "\<forall>t<T. \<forall>i<N. set_column k ?s ?m ! t ! i =
        (if i < Suc k then mean_skipna (drop_col i (X ! t)) else None)"
  proof (intro allI impI)
    fix t i assume t: "t < T" and i: "i < N"
    have "set_column k ?s ?m ! t ! i = (if i = k then ?s ! t else ?m ! t ! i)"
      using sh ls t i by (rule nth_set_column)
    then show "set_column k ?s ?m ! t ! i =
        (if i < Suc k then mean_skipna (drop_col i (X ! t)) else None)"
      using cells t i st [OF t] by (auto simp: less_Suc_eq)
  qed
  ultimately show ?case by (simp only: unfold)
qed

lemma shape_m_minus: "shape T N X \<Longrightarrow> shape T N (m_minus_of X)"
proof (cases "T = 0")
  case True
  assume "shape T N X"
  with True have "X = []" by (simp add: shape_def)
  then show ?thesis using True by (simp add: m_minus_of_def ncols_def nan_frame_def shape_def)
next
  case False
  assume sh: "shape T N X"
  with False have "ncols X = N" by (simp add: shape_ncols)
  then show ?thesis using m_minus_loop [OF sh order_refl] by (simp add: m_minus_of_def)
qed

lemma nth_m_minus:
  assumes "shape T N X" "t < T" "i < N"
  shows "m_minus_of X ! t ! i = mean_skipna (drop_col i (X ! t))"
proof -
  have "ncols X = N" using assms(1,2) by (simp add: shape_ncols)
  then show ?thesis using m_minus_loop [OF assms(1) order_refl] assms(2,3)
    by (simp add: m_minus_of_def)
qed

lemma nth_distance:
  "shape T N X \<Longrightarrow> t < T \<Longrightarrow> i < N \<Longrightarrow>
   distance_of X ! t ! i = fabs (fsub (X ! t ! i) (mean_skipna (drop_col i (X ! t))))"
  by (simp add: distance_from_def nth_frame_map [where T=T and N=N] nth_frame_map2 [where T=T and N=N]
      shape_frame_map2 shape_m_minus nth_m_minus [where T=T and N=N])

lemma shape_distance: "shape T N X \<Longrightarrow> shape T N (distance_of X)"
  by (simp add: distance_from_def shape_frame_map shape_frame_map2 shape_m_minus)

lemma shape_denom: "shape T N X \<Longrightarrow> shape T N (denom_of X)"
  by (simp add: denom_from_def shape_frame_map shape_frame_map2 shape_m_minus shape_diff)

lemma nth_delta_X:
  "shape T N X \<Longrightarrow> t < T \<Longrightarrow> i < N \<Longrightarrow> diff X ! t ! i = delta_x_at X t i"
  by (simp add: nth_diff [where T=T and N=N] delta_x_at_def)

lemma nth_delta_m:
  "shape T N X \<Longrightarrow> t < T \<Longrightarrow> i < N \<Longrightarrow> diff (m_minus_of X) ! t ! i = delta_m_at X t i"
  by (simp add: nth_diff [where T=T and N=N] shape_m_minus nth_m_minus [where T=T and N=N] delta_m_at_def)

lemma nth_denom:
  "shape T N X \<Longrightarrow> t < T \<Longrightarrow> i < N \<Longrightarrow>
   denom_of X ! t ! i = fadd (fabs (delta_m_at X t i)) (fabs (delta_x_at X t i))"
  by (simp add: denom_from_def nth_frame_map2 [where T=T and N=N] nth_frame_map [where T=T and N=N]
      shape_frame_map shape_diff shape_m_minus nth_diff [where T=T and N=N]
      nth_m_minus [where T=T and N=N] delta_x_at_def delta_m_at_def)

lemma shape_mask: "shape T N X \<Longrightarrow> shape T N (mask_of X)"
  by (simp add: mask_from_def Let_def shape_frame_map shape_frame_map2 shape_m_minus shape_diff
      shape_distance shape_denom shape_shift1)

lemma nth_mask:
  assumes "shape T N X" "t < T" "i < N"
  shows "mask_of X ! t ! i \<longleftrightarrow>
     0 < t \<and>
     flt (fabs (fsub (X ! t ! i) (mean_skipna (drop_col i (X ! t)))))
         (fabs (fsub (X ! (t - 1) ! i) (mean_skipna (drop_col i (X ! (t - 1)))))) \<and>
     fgt (fabs (delta_m_at X t i)) (fabs (delta_x_at X t i)) \<and>
     fgt (fadd (fabs (delta_m_at X t i)) (fabs (delta_x_at X t i))) (Some 0)"
proof -
  note sh = shape_frame_map shape_frame_map2 shape_m_minus shape_diff shape_distance shape_denom shape_shift1
  have dp: "shift1 (distance_of X) ! t ! i =
      (if t = 0 then None
       else fabs (fsub (X ! (t - 1) ! i) (mean_skipna (drop_col i (X ! (t - 1))))))"
    using assms
    by (simp add: nth_shift1 [where T=T and N=N] shape_distance nth_distance [where T=T and N=N])
  have "mask_of X ! t ! i \<longleftrightarrow>
     flt (distance_of X ! t ! i) (shift1 (distance_of X) ! t ! i) \<and>
     fgt (fabs (diff (m_minus_of X) ! t ! i)) (fabs (diff X ! t ! i)) \<and>
     fgt (denom_of X ! t ! i) (Some 0)"
    using assms
    by (simp add: mask_from_def Let_def nth_frame_map2 [where T=T and N=N] nth_frame_map [where T=T and N=N] sh)
  also have "\<dots> \<longleftrightarrow> 0 < t \<and>
     flt (fabs (fsub (X ! t ! i) (mean_skipna (drop_col i (X ! t)))))
         (fabs (fsub (X ! (t - 1) ! i) (mean_skipna (drop_col i (X ! (t - 1)))))) \<and>
     fgt (fabs (delta_m_at X t i)) (fabs (delta_x_at X t i)) \<and>
     fgt (fadd (fabs (delta_m_at X t i)) (fabs (delta_x_at X t i))) (Some 0)"
    using assms
    by (cases "t = 0")
       (simp_all add: dp nth_distance [where T=T and N=N] nth_diff [where T=T and N=N]
          shape_m_minus nth_m_minus [where T=T and N=N] delta_x_at_def delta_m_at_def
          nth_denom [where T=T and N=N] fabs_def fgt_def)
  finally show ?thesis .
qed

lemma shape_raw: "shape T N X \<Longrightarrow> shape T N (raw_of X)"
  by (simp add: raw_from_def Let_def shape_frame_map shape_frame_map2 shape_m_minus shape_diff
      shape_denom shape_mask)

lemma nth_raw:
  "shape T N X \<Longrightarrow> t < T \<Longrightarrow> i < N \<Longrightarrow>
   raw_of X ! t ! i =
     (if mask_of X ! t ! i
      then fdiv (fabs (delta_m_at X t i)) (fadd (fabs (delta_m_at X t i)) (fabs (delta_x_at X t i)))
      else Some 0)"
  by (simp add: raw_from_def Let_def nth_frame_map2 [where T=T and N=N] nth_frame_map [where T=T and N=N]
      shape_frame_map shape_frame_map2 shape_m_minus shape_diff shape_denom shape_mask
      nth_diff [where T=T and N=N] nth_m_minus [where T=T and N=N] delta_m_at_def
      nth_denom [where T=T and N=N])

text \<open>The mask at a cell, on the numbers: all four values are defined and satisfy Steps 1 to 3.\<close>

lemma mask_iff:
  assumes "shape T N X" "t < T" "i < N"
  shows "mask_of X ! t ! i \<longleftrightarrow>
     0 < t \<and> (\<exists>xt xp mt mp.
        X ! t ! i = Some xt \<and> X ! (t - 1) ! i = Some xp \<and>
        mean_skipna (drop_col i (X ! t)) = Some mt \<and>
        mean_skipna (drop_col i (X ! (t - 1))) = Some mp \<and>
        \<bar>xt - mt\<bar> < \<bar>xp - mp\<bar> \<and> \<bar>mt - mp\<bar> > \<bar>xt - xp\<bar> \<and>
        \<bar>mt - mp\<bar> + \<bar>xt - xp\<bar> > 0)"
proof (cases "t = 0")
  case True
  then show ?thesis using assms by (simp add: nth_mask [where T=T and N=N])
next
  case False
  show ?thesis
  proof (cases "X ! t ! i"; cases "X ! (t - 1) ! i"; cases "mean_skipna (drop_col i (X ! t))";
         cases "mean_skipna (drop_col i (X ! (t - 1)))")
  qed (use assms False in \<open>simp_all add: nth_mask [where T=T and N=N] delta_x_at_def
         delta_m_at_def fabs_def fgt_def\<close>)
qed

lemma raw_cell_cases:
  assumes "shape T N X" "t < T" "i < N"
  shows "(mask_of X ! t ! i \<and> (\<exists>p. raw_of X ! t ! i = Some p \<and> 0 < p \<and> p \<le> 1)) \<or>
         (\<not> mask_of X ! t ! i \<and> raw_of X ! t ! i = Some 0)"
proof (cases "mask_of X ! t ! i")
  case False
  then show ?thesis using assms by (simp add: nth_raw [where T=T and N=N])
next
  case True
  then obtain xt xp mt mp where v: "0 < t"
      "X ! t ! i = Some xt" "X ! (t - 1) ! i = Some xp"
      "mean_skipna (drop_col i (X ! t)) = Some mt"
      "mean_skipna (drop_col i (X ! (t - 1))) = Some mp"
      "\<bar>mt - mp\<bar> > \<bar>xt - xp\<bar>" "\<bar>mt - mp\<bar> + \<bar>xt - xp\<bar> > 0"
    using assms by (auto simp: mask_iff [where T=T and N=N])
  have "raw_of X ! t ! i = Some (\<bar>mt - mp\<bar> / (\<bar>mt - mp\<bar> + \<bar>xt - xp\<bar>))"
    using assms True v by (simp add: nth_raw [where T=T and N=N] delta_x_at_def delta_m_at_def fabs_def)
  moreover have "0 < \<bar>mt - mp\<bar> / (\<bar>mt - mp\<bar> + \<bar>xt - xp\<bar>)"
    using v by simp
  moreover have "\<bar>mt - mp\<bar> / (\<bar>mt - mp\<bar> + \<bar>xt - xp\<bar>) \<le> 1"
    using v by (simp add: divide_le_eq)
  ultimately show ?thesis using True by simp
qed

text \<open>
  The two divisions of the program never divide a nonzero number by zero: a zero Step 3
  denominator has a zero numerator, and the row sums that divide the raw weights have had
  their zeros replaced by NaN.
\<close>

lemma proportion_zero_denom:
  "fadd (fabs a) (fabs b) = Some 0 \<Longrightarrow> fabs a = Some 0"
  by (cases a; cases b) (auto simp: fabs_def)

lemma replace_zero_nan_nonzero: "replace_zero_nan c \<noteq> Some 0"
  by (simp add: replace_zero_nan_def)

lemma defined_all_Some: "\<forall>c \<in> set r. c \<noteq> None \<Longrightarrow> defined r = map the r"
  by (induction r rule: defined.induct) auto

lemma defined_all_None: "\<forall>c \<in> set r. c = None \<Longrightarrow> defined r = []"
  by (induction r rule: defined.induct) auto

lemma defined_Nil_iff: "defined r = [] \<longleftrightarrow> (\<forall>c \<in> set r. c = None)"
  by (induction r rule: defined.induct) auto

lemma raw_cell_Some:
  assumes "shape T N X" "t < T" "i < N"
  shows "\<exists>p. raw_of X ! t ! i = Some p \<and> 0 \<le> p \<and> p \<le> 1 \<and> (0 < p \<longleftrightarrow> mask_of X ! t ! i)"
  using raw_cell_cases [OF assms] by auto

lemma raw_row_defined:
  assumes "shape T N X" "t < T"
  shows "defined (raw_of X ! t) = map the (raw_of X ! t)"
proof (rule defined_all_Some, rule ballI)
  fix c assume "c \<in> set (raw_of X ! t)"
  then obtain i where i: "i < length (raw_of X ! t)" "c = raw_of X ! t ! i"
    by (auto simp: in_set_conv_nth)
  have "length (raw_of X ! t) = N"
    using shape_raw [OF assms(1)] assms(2) by (rule shape_nth)
  with i raw_cell_Some [OF assms, of i] show "c \<noteq> None" by auto
qed

text \<open>The row sum of the raw weights at period t, as a number.\<close>

lemma row_sum_eq:
  assumes "shape T N X" "t < T"
  shows "sum_skipna (raw_of X ! t) = Some (\<Sum>i<N. the (raw_of X ! t ! i))"
proof -
  have len: "length (raw_of X ! t) = N"
    using shape_raw [OF assms(1)] assms(2) by (rule shape_nth)
  have "sum_list (map the (raw_of X ! t)) = (\<Sum>i<N. the (raw_of X ! t ! i))"
    using len by (simp add: sum_list_sum_nth atLeast0LessThan)
  then show ?thesis
    by (simp add: sum_skipna_def raw_row_defined [OF assms])
qed

lemma row_sum_nonneg:
  assumes "shape T N X" "t < T"
  shows "0 \<le> (\<Sum>i<N. the (raw_of X ! t ! i))"
proof (rule sum_nonneg)
  fix i assume "i \<in> {..<N}"
  then have "i < N" by simp
  from raw_cell_Some [OF assms this] show "0 \<le> the (raw_of X ! t ! i)" by auto
qed

lemma row_sum_zero_iff:
  assumes "shape T N X" "t < T"
  shows "(\<Sum>i<N. the (raw_of X ! t ! i)) = 0 \<longleftrightarrow> (\<forall>i<N. \<not> mask_of X ! t ! i)"
proof -
  have nn: "\<forall>i\<in>{..<N}. 0 \<le> the (raw_of X ! t ! i)"
  proof
    fix i assume "i \<in> {..<N}"
    then have "i < N" by simp
    from raw_cell_Some [OF assms this] show "0 \<le> the (raw_of X ! t ! i)" by auto
  qed
  have "(\<Sum>i<N. the (raw_of X ! t ! i)) = 0 \<longleftrightarrow> (\<forall>i\<in>{..<N}. the (raw_of X ! t ! i) = 0)"
    by (rule sum_nonneg_eq_0_iff) (use nn in auto)
  also have "\<dots> \<longleftrightarrow> (\<forall>i<N. \<not> mask_of X ! t ! i)"
  proof (intro iffI allI impI ballI)
    fix i assume a: "\<forall>i\<in>{..<N}. the (raw_of X ! t ! i) = 0" and i: "i < N"
    then have "the (raw_of X ! t ! i) = 0" by simp
    with raw_cell_Some [OF assms i] show "\<not> mask_of X ! t ! i" by auto
  next
    fix i assume a: "\<forall>i<N. \<not> mask_of X ! t ! i" and i: "i \<in> {..<N}"
    then have "i < N" by simp
    with a raw_cell_cases [OF assms this] show "the (raw_of X ! t ! i) = 0" by auto
  qed
  finally show ?thesis .
qed

lemma shape_weights:
  "shape T N X \<Longrightarrow> shape T N (compute_pioneer_weights_simple X)"
  using shape_raw [of T N X]
  by (simp add: compute_pioneer_weights_simple_def weights_from_def Let_def div_axis0_def shape_iff_nth)

lemma nth_weights:
  assumes "shape T N X" "t < T" "i < N"
  shows "compute_pioneer_weights_simple X ! t ! i =
     fdiv (raw_of X ! t ! i) (replace_zero_nan (sum_skipna (raw_of X ! t)))"
  using shape_raw [OF assms(1)] assms(2,3)
  by (simp add: compute_pioneer_weights_simple_def weights_from_def Let_def div_axis0_def shape_iff_nth)

text \<open>A row of the weights: all NaN when no expert passes the mask, the raw row over its sum otherwise.\<close>

lemma weights_row:
  assumes "shape T N X" "t < T"
  shows "((\<forall>i<N. \<not> mask_of X ! t ! i) \<and>
            (\<forall>i<N. compute_pioneer_weights_simple X ! t ! i = None)) \<or>
         (0 < (\<Sum>i<N. the (raw_of X ! t ! i)) \<and>
            (\<forall>i<N. compute_pioneer_weights_simple X ! t ! i =
                Some (the (raw_of X ! t ! i) / (\<Sum>i<N. the (raw_of X ! t ! i)))))"
proof (cases "(\<Sum>i<N. the (raw_of X ! t ! i)) = 0")
  case True
  then have "\<forall>i<N. \<not> mask_of X ! t ! i"
    using row_sum_zero_iff [OF assms] by simp
  moreover have "\<forall>i<N. compute_pioneer_weights_simple X ! t ! i = None"
    using assms True raw_cell_Some [OF assms]
    by (auto simp: nth_weights [where T=T and N=N] row_sum_eq [where T=T and N=N] replace_zero_nan_def)
  ultimately show ?thesis by simp
next
  case False
  then have pos: "0 < (\<Sum>i<N. the (raw_of X ! t ! i))"
    using row_sum_nonneg [OF assms] by simp
  have "\<forall>i<N. compute_pioneer_weights_simple X ! t ! i =
                Some (the (raw_of X ! t ! i) / (\<Sum>i<N. the (raw_of X ! t ! i)))"
  proof (intro allI impI)
    fix i assume i: "i < N"
    from raw_cell_Some [OF assms i] obtain p where "raw_of X ! t ! i = Some p" by auto
    then show "compute_pioneer_weights_simple X ! t ! i =
                Some (the (raw_of X ! t ! i) / (\<Sum>i<N. the (raw_of X ! t ! i)))"
      using assms i False
      by (simp add: nth_weights [where T=T and N=N] row_sum_eq [where T=T and N=N] replace_zero_nan_def)
  qed
  with pos show ?thesis by simp
qed

section \<open>Dropping a column\<close>

lemma drop_col_conv_filter:
  "drop_col i r = map (nth r) (filter (\<lambda>j. j \<noteq> i) [0..<length r])"
proof (induction r arbitrary: i)
  case Nil
  show ?case by (simp add: drop_col_def)
next
  case (Cons x xs)
  have upt: "[0..<length (x # xs)] = 0 # map Suc [0..<length xs]"
    by (simp add: upt_conv_Cons map_Suc_upt del: upt_Suc)
  show ?case
  proof (cases i)
    case 0
    have "map (nth (x # xs)) (filter (\<lambda>j. j \<noteq> 0) (0 # map Suc [0..<length xs])) =
          map (nth xs) [0..<length xs]"
      by (simp add: filter_map comp_def)
    then show ?thesis using 0 by (simp only: upt) (simp add: drop_col_def map_nth)
  next
    case (Suc k)
    have "map (nth (x # xs)) (filter (\<lambda>j. j \<noteq> Suc k) (0 # map Suc [0..<length xs])) =
          x # map (nth xs) (filter (\<lambda>j. j \<noteq> k) [0..<length xs])"
      by (simp add: filter_map comp_def)
    moreover have "drop_col (Suc k) (x # xs) = x # drop_col k xs"
      by (simp add: drop_col_def)
    ultimately show ?thesis using Suc Cons.IH [of k] by (simp only: upt)
  qed
qed

lemma defined_map_nth:
  "defined (map (nth r) js) = map (\<lambda>j. the (r ! j)) (filter (\<lambda>j. r ! j \<noteq> None) js)"
proof (induction js)
  case Nil
  show ?case by simp
next
  case (Cons j js)
  then show ?case by (cases "r ! j") simp_all
qed

lemma defined_drop_col:
  "defined (drop_col i r) =
     map (\<lambda>j. the (r ! j)) (filter (\<lambda>j. j \<noteq> i \<and> r ! j \<noteq> None) [0..<length r])"
  by (simp add: drop_col_conv_filter defined_map_nth conj_commute)

lemma mean_drop_col_None_iff:
  "mean_skipna (drop_col i r) = None \<longleftrightarrow> (\<forall>j<length r. j \<noteq> i \<longrightarrow> r ! j = None)"
  by (auto simp: mean_skipna_def defined_drop_col filter_empty_conv)

section \<open>The scenario, evaluated\<close>

lemma scenario_shape: "shape 4 3 scenario"
  by (simp add: shape_def scenario_def)

lemma scenario_weights:
  "compute_pioneer_weights_simple scenario =
     [[None, None, None], [None, None, None], [None, None, None], [Some 1, Some 0, Some 0]]"
  by code_simp

lemma scenario_pooled:
  "pooled_forecast_simple scenario (compute_pioneer_weights_simple scenario) =
     [Some 10, Some 10, Some (32 / 3), Some 13]"
  by code_simp

section \<open>Properties of the weights\<close>

lemma positive_weight_mask:
  assumes "shape T N X" "t < T" "i < N"
    and "compute_pioneer_weights_simple X ! t ! i = Some w" "0 < w"
  shows "mask_of X ! t ! i"
proof -
  let ?S = "\<Sum>i<N. the (raw_of X ! t ! i)"
  from weights_row [OF assms(1,2)] assms(3,4)
  have S: "0 < ?S" and w: "w = the (raw_of X ! t ! i) / ?S"
    by auto
  from w S \<open>0 < w\<close> have "0 < the (raw_of X ! t ! i)"
    by (simp add: zero_less_divide_iff)
  with raw_cell_Some [OF assms(1,2,3)] show ?thesis by auto
qed

text \<open>
  C6: every weight of period 0 is undefined.
\<close>

theorem first_row_undefined:
  assumes "shape T N forecasts" "0 < T" "i < N"
  shows "compute_pioneer_weights_simple forecasts ! 0 ! i = None"
proof -
  have "\<forall>j<N. \<not> mask_of forecasts ! 0 ! j"
    using assms by (simp add: mask_iff [where T=T and N=N])
  then have "(\<Sum>j<N. the (raw_of forecasts ! 0 ! j)) = 0"
    using row_sum_zero_iff [OF assms(1,2)] by simp
  with weights_row [OF assms(1,2)] assms(3) show ?thesis by auto
qed

theorem first_row_undefined_witness:
  "shape 4 3 scenario \<and> (0::nat) < 4 \<and> (1::nat) < 3 \<and>
   compute_pioneer_weights_simple scenario ! 0 ! 1 = None"
  using first_row_undefined [OF scenario_shape, of 1] scenario_shape by simp

text \<open>
  C2 (mask soundness): a strictly positive weight of expert i at period t means that t has a
  predecessor, that the forecasts of i and its leave-one-out benchmark are defined at t and
  t - 1, and that on these numbers the distance condition, the orientation condition and
  the positivity of the Step 3 denominator all hold.
\<close>

theorem mask_soundness:
  assumes "shape T N forecasts" "t < T" "i < N"
    and "compute_pioneer_weights_simple forecasts ! t ! i = Some w" "0 < w"
  shows "0 < t \<and> (\<exists>xt xp mt mp.
        forecasts ! t ! i = Some xt \<and> forecasts ! (t - 1) ! i = Some xp \<and>
        m_minus_of forecasts ! t ! i = Some mt \<and>
        m_minus_of forecasts ! (t - 1) ! i = Some mp \<and>
        \<bar>xt - mt\<bar> < \<bar>xp - mp\<bar> \<and> \<bar>mt - mp\<bar> > \<bar>xt - xp\<bar> \<and>
        \<bar>mt - mp\<bar> + \<bar>xt - xp\<bar> > 0)"
proof -
  have m: "mask_of forecasts ! t ! i"
    using assms by (rule positive_weight_mask)
  then have "0 < t" using assms(1-3) by (simp add: mask_iff [where T=T and N=N])
  then have "t - 1 < T" using assms(2) by simp
  then show ?thesis
    using m assms(1-3)
    by (simp add: mask_iff [where T=T and N=N] nth_m_minus [where T=T and N=N])
qed

theorem mask_soundness_witness:
  "shape 4 3 scenario \<and> (3::nat) < 4 \<and> (0::nat) < 3 \<and>
   compute_pioneer_weights_simple scenario ! 3 ! 0 = Some 1 \<and> (0::real) < 1 \<and>
   (\<exists>xt xp mt mp.
        scenario ! 3 ! 0 = Some xt \<and> scenario ! (3 - 1) ! 0 = Some xp \<and>
        m_minus_of scenario ! 3 ! 0 = Some mt \<and>
        m_minus_of scenario ! (3 - 1) ! 0 = Some mp \<and>
        \<bar>xt - mt\<bar> < \<bar>xp - mp\<bar> \<and> \<bar>mt - mp\<bar> > \<bar>xt - xp\<bar> \<and>
        \<bar>mt - mp\<bar> + \<bar>xt - xp\<bar> > 0)"
proof -
  have w: "compute_pioneer_weights_simple scenario ! 3 ! 0 = Some 1"
    by (simp add: scenario_weights)
  from mask_soundness [OF scenario_shape _ _ w] scenario_shape w show ?thesis by simp
qed

text \<open>
  C10: a strictly positive weight of expert i at period t means that the forecasts of i at
  t and t - 1 are defined and that at each of the two periods some other expert has a
  defined forecast.
\<close>

theorem pioneer_inputs_defined:
  assumes "shape T N forecasts" "t < T" "i < N"
    and "compute_pioneer_weights_simple forecasts ! t ! i = Some w" "0 < w"
  shows "0 < t \<and> forecasts ! t ! i \<noteq> None \<and> forecasts ! (t - 1) ! i \<noteq> None \<and>
     (\<exists>j<N. j \<noteq> i \<and> forecasts ! t ! j \<noteq> None) \<and>
     (\<exists>j<N. j \<noteq> i \<and> forecasts ! (t - 1) ! j \<noteq> None)"
proof -
  have m: "mask_of forecasts ! t ! i"
    using assms by (rule positive_weight_mask)
  then obtain xt xp mt mp where v: "0 < t"
      "forecasts ! t ! i = Some xt" "forecasts ! (t - 1) ! i = Some xp"
      "mean_skipna (drop_col i (forecasts ! t)) = Some mt"
      "mean_skipna (drop_col i (forecasts ! (t - 1))) = Some mp"
    using assms(1-3) by (auto simp: mask_iff [where T=T and N=N])
  have len: "length (forecasts ! t) = N" "length (forecasts ! (t - 1)) = N"
    using assms(1,2) by (simp_all add: shape_def)
  have "\<exists>j<N. j \<noteq> i \<and> forecasts ! t ! j \<noteq> None"
    using v(4) mean_drop_col_None_iff [of i "forecasts ! t"] len by auto
  moreover have "\<exists>j<N. j \<noteq> i \<and> forecasts ! (t - 1) ! j \<noteq> None"
    using v(5) mean_drop_col_None_iff [of i "forecasts ! (t - 1)"] len by auto
  ultimately show ?thesis using v by simp
qed

theorem pioneer_inputs_defined_witness:
  "shape 4 3 scenario \<and> (3::nat) < 4 \<and> (0::nat) < 3 \<and>
   compute_pioneer_weights_simple scenario ! 3 ! 0 = Some 1 \<and> (0::real) < 1 \<and>
   scenario ! 3 ! 0 \<noteq> None \<and> scenario ! (3 - 1) ! 0 \<noteq> None \<and>
     (\<exists>j<3. j \<noteq> 0 \<and> scenario ! 3 ! j \<noteq> None) \<and>
     (\<exists>j<3. j \<noteq> 0 \<and> scenario ! (3 - 1) ! j \<noteq> None)"
proof -
  have w: "compute_pioneer_weights_simple scenario ! 3 ! 0 = Some 1"
    by (simp add: scenario_weights)
  from pioneer_inputs_defined [OF scenario_shape _ _ w] scenario_shape w show ?thesis by simp
qed

text \<open>
  C5: the benchmark of expert i at period t that the weights are computed from is the
  mean of the defined forecasts of the other experts at t, and is undefined exactly when
  no other expert has a defined forecast at t.
\<close>

theorem leave_one_out_benchmark:
  assumes "shape T N forecasts" "t < T" "i < N"
  shows "m_minus_of forecasts ! t ! i = loo_mean_spec forecasts t i \<and>
     (m_minus_of forecasts ! t ! i = None \<longleftrightarrow> (\<forall>j<N. j \<noteq> i \<longrightarrow> forecasts ! t ! j = None))"
proof -
  have len: "length (forecasts ! t) = N" using assms(1,2) by (rule shape_nth)
  have m: "m_minus_of forecasts ! t ! i = mean_skipna (drop_col i (forecasts ! t))"
    using assms by (rule nth_m_minus)
  have "mean_skipna (drop_col i (forecasts ! t)) = loo_mean_spec forecasts t i"
    by (simp add: mean_skipna_def loo_mean_spec_def defined_drop_col Let_def)
  moreover have "mean_skipna (drop_col i (forecasts ! t)) = None \<longleftrightarrow>
      (\<forall>j<N. j \<noteq> i \<longrightarrow> forecasts ! t ! j = None)"
    using mean_drop_col_None_iff [of i "forecasts ! t"] len by simp
  ultimately show ?thesis using m by simp
qed

theorem leave_one_out_benchmark_witness:
  "shape 4 3 scenario \<and> (1::nat) < 4 \<and> (0::nat) < 3 \<and>
   m_minus_of scenario ! 1 ! 0 = loo_mean_spec scenario 1 0 \<and>
   loo_mean_spec scenario 1 0 = Some (19 / 2) \<and>
   m_minus_of scenario ! 1 ! 0 \<noteq> None \<and> scenario ! 1 ! 1 \<noteq> None"
proof -
  have e: "loo_mean_spec scenario 1 0 = Some (19 / 2)" by code_simp
  have h1: "(1::nat) < 4" and h2: "(0::nat) < 3" by simp_all
  note c = leave_one_out_benchmark [OF scenario_shape h1 h2]
  have m: "m_minus_of scenario ! 1 ! 0 = loo_mean_spec scenario 1 0" using c by (rule conjunct1)
  then have n: "m_minus_of scenario ! 1 ! 0 \<noteq> None" using e by simp
  have x: "scenario ! 1 ! 1 \<noteq> None" by (simp add: scenario_def)
  show ?thesis using scenario_shape h1 h2 m e n x by (intro conjI)
qed

text \<open>
  C8: on the scenario of the specification the weight row of period 0 is entirely
  undefined and the pooled value of period 0 is 10.
\<close>

theorem scenario_period_0:
  "compute_pioneer_weights_simple scenario ! 0 = [None, None, None] \<and>
   pooled_forecast_simple scenario (compute_pioneer_weights_simple scenario) ! 0 = Some 10"
proof
  show "compute_pioneer_weights_simple scenario ! 0 = [None, None, None]"
    by (simp add: scenario_weights)
  show "pooled_forecast_simple scenario (compute_pioneer_weights_simple scenario) ! 0 = Some 10"
    by (simp add: scenario_pooled)
qed

section \<open>The pooled forecast, row by row\<close>

lemma length_pooled:
  "length forecasts = T \<Longrightarrow> length weights = T \<Longrightarrow>
   length (pooled_forecast_simple forecasts weights) = T"
  by (simp add: pooled_forecast_simple_def Let_def frame_map2_def)

lemma nth_pooled:
  assumes "length forecasts = T" "length weights = T" "t < T"
  shows "pooled_forecast_simple forecasts weights ! t =
     (if sum_min_count1 (weights ! t) = None \<or> sum_min_count1 (weights ! t) = Some 0
      then mean_skipna (forecasts ! t)
      else sum_min_count1 (map2 fmul (forecasts ! t) (weights ! t)))"
  using assms by (simp add: pooled_forecast_simple_def Let_def frame_map2_def)

lemma defined_conv_filter:
  "defined r = map (\<lambda>j. the (r ! j)) (filter (\<lambda>j. r ! j \<noteq> None) [0..<length r])"
  using defined_map_nth [of r "[0..<length r]"] by (simp add: map_nth)

lemma sum_list_defined:
  "sum_list (defined r) = (\<Sum>j \<in> {j. j < length r \<and> r ! j \<noteq> None}. the (r ! j))"
proof -
  have "sum_list (defined r) =
      sum (\<lambda>j. the (r ! j)) (set (filter (\<lambda>j. r ! j \<noteq> None) [0..<length r]))"
    by (simp add: defined_conv_filter sum_list_distinct_conv_sum_set)
  also have "set (filter (\<lambda>j. r ! j \<noteq> None) [0..<length r]) = {j. j < length r \<and> r ! j \<noteq> None}"
    by auto
  finally show ?thesis .
qed

lemma length_defined:
  "length (defined r) = card {j. j < length r \<and> r ! j \<noteq> None}"
proof -
  have "card (set (filter (\<lambda>j. r ! j \<noteq> None) [0..<length r])) =
      length (filter (\<lambda>j. r ! j \<noteq> None) [0..<length r])"
    by (rule distinct_card) simp
  moreover have "set (filter (\<lambda>j. r ! j \<noteq> None) [0..<length r]) = {j. j < length r \<and> r ! j \<noteq> None}"
    by auto
  ultimately show ?thesis by (simp add: defined_conv_filter)
qed

lemma mean_skipna_None_iff: "mean_skipna r = None \<longleftrightarrow> (\<forall>j<length r. r ! j = None)"
  by (simp add: mean_skipna_def defined_Nil_iff all_set_conv_all_nth)

lemma sum_min_count1_None_iff: "sum_min_count1 r = None \<longleftrightarrow> (\<forall>j<length r. r ! j = None)"
  by (simp add: sum_min_count1_def defined_Nil_iff all_set_conv_all_nth)

text \<open>
  C3 (fallback completeness): at a period whose weight sum is undefined or exactly 0, the
  pooled value is the mean of the defined forecasts of that period, and it is undefined
  exactly when every forecast of the period is undefined.
\<close>

theorem fallback_completeness:
  assumes "shape T N forecasts" "shape T N weights" "t < T"
    and "sum_min_count1 (weights ! t) = None \<or> sum_min_count1 (weights ! t) = Some 0"
  shows "pooled_forecast_simple forecasts weights ! t = mean_skipna (forecasts ! t) \<and>
     mean_skipna (forecasts ! t) =
       (if \<forall>i<N. forecasts ! t ! i = None then None
        else Some ((\<Sum>i \<in> {i. i < N \<and> forecasts ! t ! i \<noteq> None}. the (forecasts ! t ! i)) /
                   real (card {i. i < N \<and> forecasts ! t ! i \<noteq> None})))"
proof
  show "pooled_forecast_simple forecasts weights ! t = mean_skipna (forecasts ! t)"
    using assms by (simp add: nth_pooled [where T=T] shape_def)
next
  have len: "length (forecasts ! t) = N" using assms(1,3) by (rule shape_nth)
  show "mean_skipna (forecasts ! t) =
       (if \<forall>i<N. forecasts ! t ! i = None then None
        else Some ((\<Sum>i \<in> {i. i < N \<and> forecasts ! t ! i \<noteq> None}. the (forecasts ! t ! i)) /
                   real (card {i. i < N \<and> forecasts ! t ! i \<noteq> None})))"
  proof (cases "\<forall>i<N. forecasts ! t ! i = None")
    case True
    then show ?thesis using len by (simp add: mean_skipna_None_iff)
  next
    case False
    then have "mean_skipna (forecasts ! t) \<noteq> None"
      using len by (simp add: mean_skipna_None_iff)
    then have "defined (forecasts ! t) \<noteq> []" by (auto simp: mean_skipna_def)
    then have "mean_skipna (forecasts ! t) =
        Some (sum_list (defined (forecasts ! t)) / real (length (defined (forecasts ! t))))"
      by (simp add: mean_skipna_def)
    then show ?thesis using False len
      by (simp add: sum_list_defined length_defined)
  qed
qed

theorem fallback_completeness_witness:
  "shape 4 3 scenario \<and> shape 4 3 (compute_pioneer_weights_simple scenario) \<and> (2::nat) < 4 \<and>
   sum_min_count1 (compute_pioneer_weights_simple scenario ! 2) = None \<and>
   pooled_forecast_simple scenario (compute_pioneer_weights_simple scenario) ! 2 =
     mean_skipna (scenario ! 2) \<and>
   mean_skipna (scenario ! 2) = Some (32 / 3)"
proof -
  have sw: "shape 4 3 (compute_pioneer_weights_simple scenario)"
    using scenario_shape by (rule shape_weights)
  have h: "(2::nat) < 4" by simp
  have s: "sum_min_count1 (compute_pioneer_weights_simple scenario ! 2) = None"
    by (simp add: scenario_weights sum_min_count1_def)
  have m: "mean_skipna (scenario ! 2) = Some (32 / 3)" by code_simp
  note c = fallback_completeness [OF scenario_shape sw h disjI1 [OF s]]
  show ?thesis using scenario_shape sw h s m c by blast
qed

lemma sum_min_count1_Some:
  assumes "j < length r" "r ! j \<noteq> None"
  shows "\<exists>s. sum_min_count1 r = Some s"
proof -
  have "r ! j \<in> set r" using assms(1) by (rule nth_mem)
  with assms(2) have "defined r \<noteq> []" by (auto simp: defined_Nil_iff)
  then show ?thesis by (simp add: sum_min_count1_def)
qed

text \<open>
  The pooled value is defined at a period with a defined forecast as soon as the row of
  weights either triggers the fallback or holds a defined weight on a defined forecast.
\<close>

lemma pooled_defined_general:
  assumes "shape T N forecasts" "shape T N weights" "t < T" "i < N"
    and "forecasts ! t ! i \<noteq> None"
    and "sum_min_count1 (weights ! t) = None \<or> sum_min_count1 (weights ! t) = Some 0 \<or>
         (\<exists>k<N. weights ! t ! k \<noteq> None \<and> forecasts ! t ! k \<noteq> None)"
  shows "pooled_forecast_simple forecasts weights ! t \<noteq> None"
proof -
  have lf: "length (forecasts ! t) = N" using assms(1,3) by (rule shape_nth)
  have lw: "length (weights ! t) = N" using assms(2,3) by (rule shape_nth)
  have p: "pooled_forecast_simple forecasts weights ! t =
     (if sum_min_count1 (weights ! t) = None \<or> sum_min_count1 (weights ! t) = Some 0
      then mean_skipna (forecasts ! t)
      else sum_min_count1 (map2 fmul (forecasts ! t) (weights ! t)))"
    using assms(1-3) by (simp add: nth_pooled [where T=T] shape_def)
  show ?thesis
  proof (cases "sum_min_count1 (weights ! t) = None \<or> sum_min_count1 (weights ! t) = Some 0")
    case True
    have "mean_skipna (forecasts ! t) \<noteq> None"
      using assms(4,5) lf by (auto simp: mean_skipna_None_iff)
    moreover have "pooled_forecast_simple forecasts weights ! t = mean_skipna (forecasts ! t)"
      by (subst p) (rule if_P [OF True])
    ultimately show ?thesis by simp
  next
    case False
    from assms(6) False
    have "\<exists>k<N. weights ! t ! k \<noteq> None \<and> forecasts ! t ! k \<noteq> None" by blast
    then obtain k where k: "k < N" "weights ! t ! k \<noteq> None" "forecasts ! t ! k \<noteq> None"
      by (elim exE conjE)
    from k(2,3) obtain w x where wx: "weights ! t ! k = Some w" "forecasts ! t ! k = Some x"
      by (cases "weights ! t ! k"; cases "forecasts ! t ! k") simp_all
    have kl: "k < length (map2 fmul (forecasts ! t) (weights ! t))"
      using k(1) lf lw by simp
    have "map2 fmul (forecasts ! t) (weights ! t) ! k = Some (x * w)"
      using k(1) lf lw wx by simp
    then have "map2 fmul (forecasts ! t) (weights ! t) ! k \<noteq> None" by simp
    with kl have "\<exists>s. sum_min_count1 (map2 fmul (forecasts ! t) (weights ! t)) = Some s"
      by (rule sum_min_count1_Some)
    then have "sum_min_count1 (map2 fmul (forecasts ! t) (weights ! t)) \<noteq> None" by (elim exE) simp
    moreover have "pooled_forecast_simple forecasts weights ! t =
        sum_min_count1 (map2 fmul (forecasts ! t) (weights ! t))"
      by (subst p) (rule if_not_P [OF False])
    ultimately show ?thesis by simp
  qed
qed

text \<open>
  C4: for forecasts and weights of the same shape, where the row of weights of period t is
  as the data model has the rows of a weight matrix, entirely undefined or entirely
  defined, the pooled value of period t is defined as soon as one expert has a defined
  forecast at t, whether or not a pioneer was detected.
\<close>

theorem pooled_defined:
  assumes "shape T N forecasts" "shape T N weights" "t < T" "i < N"
    and "forecasts ! t ! i \<noteq> None"
    and "(\<forall>k<N. weights ! t ! k = None) \<or> (\<forall>k<N. weights ! t ! k \<noteq> None)"
  shows "pooled_forecast_simple forecasts weights ! t \<noteq> None"
proof -
  have lw: "length (weights ! t) = N" using assms(2,3) by (rule shape_nth)
  have "sum_min_count1 (weights ! t) = None \<or> sum_min_count1 (weights ! t) = Some 0 \<or>
         (\<exists>k<N. weights ! t ! k \<noteq> None \<and> forecasts ! t ! k \<noteq> None)"
  proof (cases "\<forall>k<N. weights ! t ! k = None")
    case True
    then have "sum_min_count1 (weights ! t) = None"
      using lw by (simp add: sum_min_count1_None_iff)
    then show ?thesis by simp
  next
    case False
    with assms(6) have "\<forall>k<N. weights ! t ! k \<noteq> None" by simp
    with assms(4) have "weights ! t ! i \<noteq> None" by simp
    with assms(4,5) have "\<exists>k<N. weights ! t ! k \<noteq> None \<and> forecasts ! t ! k \<noteq> None"
      by (intro exI [of _ i]) simp
    then show ?thesis by simp
  qed
  then show ?thesis by (rule pooled_defined_general [OF assms(1,2,3,4,5)])
qed

theorem pooled_defined_witness:
  "shape 4 3 scenario \<and> shape 4 3 (compute_pioneer_weights_simple scenario) \<and>
   (3::nat) < 4 \<and> (0::nat) < 3 \<and> scenario ! 3 ! 0 \<noteq> None \<and>
   compute_pioneer_weights_simple scenario ! 3 ! 0 \<noteq> None \<and>
   compute_pioneer_weights_simple scenario ! 3 ! 1 \<noteq> None \<and>
   compute_pioneer_weights_simple scenario ! 3 ! 2 \<noteq> None \<and>
   pooled_forecast_simple scenario (compute_pioneer_weights_simple scenario) ! 3 \<noteq> None"
proof -
  have sw: "shape 4 3 (compute_pioneer_weights_simple scenario)"
    using scenario_shape by (rule shape_weights)
  have h1: "(3::nat) < 4" and h2: "(0::nat) < 3" by simp_all
  have h3: "scenario ! 3 ! 0 \<noteq> None" by (simp add: scenario_def)
  have w0: "compute_pioneer_weights_simple scenario ! 3 ! 0 \<noteq> None"
    and w1: "compute_pioneer_weights_simple scenario ! 3 ! 1 \<noteq> None"
    and w2: "compute_pioneer_weights_simple scenario ! 3 ! 2 \<noteq> None"
    by (simp_all add: scenario_weights)
  have row: "\<forall>k<3. compute_pioneer_weights_simple scenario ! 3 ! k \<noteq> None"
  proof (intro allI impI)
    fix k :: nat assume "k < 3"
    then have "k = 0 \<or> k = 1 \<or> k = 2" by arith
    then show "compute_pioneer_weights_simple scenario ! 3 ! k \<noteq> None"
      using w0 w1 w2 by (elim disjE) simp_all
  qed
  note c = pooled_defined [OF scenario_shape sw h1 h2 h3 disjI2 [OF row]]
  show ?thesis using scenario_shape sw h1 h2 h3 w0 w1 w2 c by (intro conjI)
qed

section \<open>A single expert\<close>

lemma single_expert_weights_cell:
  assumes "shape T 1 X" "t < T"
  shows "compute_pioneer_weights_simple X ! t ! 0 = None"
proof -
  have len: "length (X ! t) = 1" using assms by (rule shape_nth)
  have "mean_skipna (drop_col 0 (X ! t)) = None"
    using len by (simp add: mean_drop_col_None_iff)
  then have "\<not> mask_of X ! t ! 0"
    using assms by (simp add: mask_iff [where T=T and N=1])
  then have "\<forall>i<1. \<not> mask_of X ! t ! i" by simp
  then have "(\<Sum>i<1. the (raw_of X ! t ! i)) = 0"
    using row_sum_zero_iff [OF assms] by simp
  with weights_row [OF assms] show ?thesis by auto
qed

lemma single_cell_row: "length r = 1 \<Longrightarrow> r = [r ! 0]"
  by (cases r) auto

lemma mean_skipna_single: "mean_skipna [c] = c"
  by (cases c) (simp_all add: mean_skipna_def)

text \<open>
  C7: with a single expert every weight is undefined, and pooling the forecasts with these
  weights gives back the forecasts of that expert, period by period. Both operations are
  total functions here: they have no error result.
\<close>

theorem single_expert_degeneracy:
  assumes "shape T 1 forecasts"
  shows "compute_pioneer_weights_simple forecasts = map (\<lambda>r. [None]) forecasts \<and>
     pooled_forecast_simple forecasts (compute_pioneer_weights_simple forecasts) =
       map (\<lambda>r. r ! 0) forecasts"
proof
  let ?W = "compute_pioneer_weights_simple forecasts"
  have sw: "shape T 1 ?W" using assms by (rule shape_weights)
  have lT: "length forecasts = T" using assms by (rule shape_length)
  have lW: "length ?W = T" using sw by (rule shape_length)
  have row: "?W ! t = [None]" if "t < T" for t
  proof -
    have "length (?W ! t) = 1" using sw that by (rule shape_nth)
    then have "?W ! t = [?W ! t ! 0]" by (rule single_cell_row)
    then show ?thesis using single_expert_weights_cell [OF assms that] by simp
  qed
  show w: "?W = map (\<lambda>r. [None]) forecasts"
  proof (rule nth_equalityI)
    show "length ?W = length (map (\<lambda>r. [None]) forecasts)" using lW lT by simp
  next
    fix t assume "t < length ?W"
    then have t: "t < T" using lW by simp
    then show "?W ! t = map (\<lambda>r. [None]) forecasts ! t" using row [OF t] lT by simp
  qed
  show "pooled_forecast_simple forecasts ?W = map (\<lambda>r. r ! 0) forecasts"
  proof (rule nth_equalityI)
    show "length (pooled_forecast_simple forecasts ?W) = length (map (\<lambda>r. r ! 0) forecasts)"
      using length_pooled [OF lT lW] lT by simp
  next
    fix t assume "t < length (pooled_forecast_simple forecasts ?W)"
    then have t: "t < T" using length_pooled [OF lT lW] by simp
    have "length (forecasts ! t) = 1" using assms t by (rule shape_nth)
    then have f: "forecasts ! t = [forecasts ! t ! 0]" by (rule single_cell_row)
    have "sum_min_count1 (?W ! t) = None"
      using row [OF t] by (simp add: sum_min_count1_def)
    then have "pooled_forecast_simple forecasts ?W ! t = mean_skipna (forecasts ! t)"
      using nth_pooled [OF lT lW t] by simp
    also have "\<dots> = mean_skipna [forecasts ! t ! 0]" using f by simp
    also have "\<dots> = forecasts ! t ! 0" by (rule mean_skipna_single)
    finally show "pooled_forecast_simple forecasts ?W ! t = map (\<lambda>r. r ! 0) forecasts ! t"
      using t lT by simp
  qed
qed

theorem single_expert_degeneracy_witness:
  "shape 3 1 ([[Some 1], [Some 2], [None]] :: frame) \<and>
   compute_pioneer_weights_simple [[Some 1], [Some 2], [None]] = [[None], [None], [None]] \<and>
   pooled_forecast_simple [[Some 1], [Some 2], [None]]
       (compute_pioneer_weights_simple [[Some 1], [Some 2], [None]]) =
     [Some 1, Some 2, None]"
proof -
  have s: "shape 3 1 ([[Some 1], [Some 2], [None]] :: frame)"
    by (simp add: shape_def)
  note c = single_expert_degeneracy [OF s]
  have a: "compute_pioneer_weights_simple [[Some 1], [Some 2], [None]] = [[None], [None], [None]]"
    using c by simp
  have b: "pooled_forecast_simple [[Some 1], [Some 2], [None]]
       (compute_pioneer_weights_simple [[Some 1], [Some 2], [None]]) =
     [Some 1, Some 2, None]"
    using conjunct2 [OF c] by simp
  show ?thesis using s a b by (intro conjI)
qed

section \<open>No object of the caller is written\<close>

lemma extends_refl: "extends h h"
  by (simp add: extends_def)

lemma extends_trans: "extends h1 h2 \<Longrightarrow> extends h2 h3 \<Longrightarrow> extends h1 h3"
proof -
  assume a: "extends h1 h2" and b: "extends h2 h3"
  have "take (length h1) h3 = take (length h1) (take (length h2) h3)"
    using a by (simp add: extends_def min_def)
  also have "\<dots> = take (length h1) h2" using b by (simp add: extends_def)
  also have "\<dots> = h1" using a by (simp add: extends_def)
  finally show ?thesis using a b by (simp add: extends_def)
qed

lemma extends_nth: "extends h h' \<Longrightarrow> a < length h \<Longrightarrow> h' ! a = h ! a"
proof -
  assume e: "extends h h'" and a: "a < length h"
  have "take (length h) h' ! a = h' ! a" using a by simp
  then show ?thesis using e by (simp add: extends_def)
qed

lemma extends_alloc: "extends h (snd (alloc v h))"
  by (simp add: extends_def alloc_def)

lemma extends_update: "extends h0 h \<Longrightarrow> length h0 \<le> a \<Longrightarrow> extends h0 (h[a := v])"
  by (simp add: extends_def)

lemma extends_m_minus_step:
  assumes "extends h0 h" "length h0 \<le> m"
  shows "extends h0 (m_minus_step X m col h)"
proof -
  have "extends h0 (h @ [Frame (drop_columns col (frame_at h X))])"
    using assms(1) extends_alloc [of h] by (auto simp: alloc_def intro: extends_trans)
  then show ?thesis
    using assms(2) by (simp add: m_minus_step_def alloc_def extends_update)
qed

lemma extends_m_minus_loop:
  "extends h0 h \<Longrightarrow> length h0 \<le> m \<Longrightarrow> extends h0 (fold (m_minus_step X m) cols h)"
  by (induction cols arbitrary: h) (simp_all add: extends_m_minus_step)

lemma extends_compute:
  "extends h (snd (compute_pioneer_weights_simple_st forecasts h))"
proof -
  let ?h1 = "h @ [Frame (frame_at h forecasts)]"
  let ?h2 = "?h1 @ [Frame (nan_frame (frame_at ?h1 (length h)))]"
  let ?h3 = "fold (m_minus_step (length h) (Suc (length h))) [0..<ncols (frame_at ?h2 (length h))] ?h2"
  have "extends h ?h2" by (simp add: extends_def)
  then have "extends h ?h3" by (rule extends_m_minus_loop) simp
  moreover have "extends ?h3 (?h3 @ [Frame (weights_from (frame_at ?h3 (length h))
      (frame_at ?h3 (Suc (length h))))])"
    by (simp add: extends_def)
  ultimately have "extends h (?h3 @ [Frame (weights_from (frame_at ?h3 (length h))
      (frame_at ?h3 (Suc (length h))))])"
    by (rule extends_trans)
  then show ?thesis
    by (simp add: compute_pioneer_weights_simple_st_def alloc_def Let_def)
qed

lemma length_m_minus_loop:
  "length h \<le> length (fold (m_minus_step X m) cols h)"
proof (induction cols arbitrary: h)
  case Nil
  show ?case by simp
next
  case (Cons col cols)
  have "length h \<le> length (m_minus_step X m col h)"
    by (simp add: m_minus_step_def alloc_def)
  also have "\<dots> \<le> length (fold (m_minus_step X m) cols (m_minus_step X m col h))"
    by (rule Cons.IH)
  finally show ?case by simp
qed

lemma fresh_compute:
  "length h \<le> fst (compute_pioneer_weights_simple_st forecasts h)"
proof -
  let ?h1 = "h @ [Frame (frame_at h forecasts)]"
  let ?h2 = "?h1 @ [Frame (nan_frame (frame_at ?h1 (length h)))]"
  have "length ?h2 \<le> length (fold (m_minus_step (length h) (Suc (length h)))
      [0..<ncols (frame_at ?h2 (length h))] ?h2)"
    by (rule length_m_minus_loop)
  then show ?thesis
    by (simp add: compute_pioneer_weights_simple_st_def alloc_def Let_def)
qed

lemma extends_pooled:
  "extends h (snd (pooled_forecast_simple_st forecasts weights h))"
  by (simp add: pooled_forecast_simple_st_def alloc_def Let_def extends_def)

lemma fresh_pooled:
  "length h \<le> fst (pooled_forecast_simple_st forecasts weights h)"
  by (simp add: pooled_forecast_simple_st_def alloc_def Let_def)

section \<open>The store model computes what the functions compute\<close>

lemma m_minus_step_cells:
  assumes "X < length h" "m < length h" "X \<noteq> m" "h ! X = Frame Xv" "h ! m = Frame M"
  shows "m_minus_step X m col h ! X = Frame Xv"
    and "m_minus_step X m col h ! m = Frame (set_column col (mean_axis1 (drop_columns col Xv)) M)"
    and "length (m_minus_step X m col h) = Suc (length h)"
  using assms
  by (simp_all add: m_minus_step_def alloc_def frame_at_def nth_append)

lemma m_minus_loop_st:
  assumes "X < length h" "m < length h" "X \<noteq> m" "h ! X = Frame Xv" "h ! m = Frame M"
  shows "fold (m_minus_step X m) cols h ! X = Frame Xv \<and>
         fold (m_minus_step X m) cols h ! m =
           Frame (fold (\<lambda>col m. set_column col (mean_axis1 (drop_columns col Xv)) m) cols M)"
  using assms
proof (induction cols arbitrary: h M)
  case Nil
  then show ?case by simp
next
  case (Cons col cols)
  let ?h = "m_minus_step X m col h"
  note c = m_minus_step_cells [OF Cons.prems, of col]
  have "X < length ?h" "m < length ?h" using c(3) Cons.prems(1,2) by simp_all
  from Cons.IH [OF this Cons.prems(3) c(1) c(2)] show ?case by simp
qed

lemma compute_st_value:
  assumes "forecasts < length h" "h ! forecasts = Frame F"
  shows "snd (compute_pioneer_weights_simple_st forecasts h) !
           fst (compute_pioneer_weights_simple_st forecasts h) =
         Frame (compute_pioneer_weights_simple F)"
proof -
  let ?X = "length h" and ?m = "Suc (length h)"
  let ?h2 = "h @ [Frame F] @ [Frame (nan_frame F)]"
  let ?h3 = "fold (m_minus_step ?X ?m) [0..<ncols F] ?h2"
  have f: "frame_at h forecasts = F" using assms by (simp add: frame_at_def)
  have l: "fold (m_minus_step ?X ?m) [0..<ncols F] ?h2 ! ?X = Frame F \<and>
        fold (m_minus_step ?X ?m) [0..<ncols F] ?h2 ! ?m = Frame (m_minus_of F)"
    unfolding m_minus_of_def
    by (rule m_minus_loop_st) (simp_all add: nth_append)
  then have x3: "frame_at ?h3 ?X = F" and m3: "frame_at ?h3 ?m = m_minus_of F"
    by (simp_all add: frame_at_def)
  have "compute_pioneer_weights_simple_st forecasts h =
      (length ?h3, ?h3 @ [Frame (weights_from (frame_at ?h3 ?X) (frame_at ?h3 ?m))])"
    using f by (simp add: compute_pioneer_weights_simple_st_def alloc_def Let_def frame_at_def)
  then show ?thesis
    using x3 m3 by (simp add: compute_pioneer_weights_simple_def Let_def)
qed

lemma pooled_st_value:
  assumes "forecasts < length h" "weights < length h"
    and "h ! forecasts = Frame F" "h ! weights = Frame W"
  shows "snd (pooled_forecast_simple_st forecasts weights h) !
           fst (pooled_forecast_simple_st forecasts weights h) =
         Series (pooled_forecast_simple F W)"
  using assms
  by (simp add: pooled_forecast_simple_st_def pooled_forecast_simple_def alloc_def Let_def
      frame_at_def series_at_def nth_append)

text \<open>
  C9: neither operation writes to an object of its caller. After either call every
  argument holds the object it held before, and the result is at an address that did not
  exist before the call.
\<close>

theorem arguments_not_mutated:
  assumes "forecasts < length h" "weights < length h"
  shows "snd (compute_pioneer_weights_simple_st forecasts h) ! forecasts = h ! forecasts \<and>
     length h \<le> fst (compute_pioneer_weights_simple_st forecasts h) \<and>
     snd (pooled_forecast_simple_st forecasts weights h) ! forecasts = h ! forecasts \<and>
     snd (pooled_forecast_simple_st forecasts weights h) ! weights = h ! weights \<and>
     length h \<le> fst (pooled_forecast_simple_st forecasts weights h)"
  using assms extends_nth [OF extends_compute] extends_nth [OF extends_pooled]
    fresh_compute fresh_pooled
  by (intro conjI) simp_all

theorem arguments_not_mutated_witness:
  "(0::nat) < length [Frame scenario, Frame (compute_pioneer_weights_simple scenario)] \<and>
   (1::nat) < length [Frame scenario, Frame (compute_pioneer_weights_simple scenario)] \<and>
   snd (compute_pioneer_weights_simple_st 0
          [Frame scenario, Frame (compute_pioneer_weights_simple scenario)]) ! 0 =
     Frame scenario \<and>
   snd (pooled_forecast_simple_st 0 1
          [Frame scenario, Frame (compute_pioneer_weights_simple scenario)]) ! 0 =
     Frame scenario \<and>
   snd (pooled_forecast_simple_st 0 1
          [Frame scenario, Frame (compute_pioneer_weights_simple scenario)]) ! 1 =
     Frame (compute_pioneer_weights_simple scenario)"
proof -
  let ?h = "[Frame scenario, Frame (compute_pioneer_weights_simple scenario)]"
  have h0: "(0::nat) < length ?h" and h1: "(1::nat) < length ?h" by simp_all
  note c = arguments_not_mutated [OF h0 h1]
  have a: "snd (compute_pioneer_weights_simple_st 0 ?h) ! 0 = Frame scenario"
    using c by simp
  have b: "snd (pooled_forecast_simple_st 0 1 ?h) ! 0 = Frame scenario"
    using c by simp
  have d: "snd (pooled_forecast_simple_st 0 1 ?h) ! 1 =
      Frame (compute_pioneer_weights_simple scenario)"
    using c by simp
  show ?thesis using h0 h1 a b d by (intro conjI)
qed

end
